theory Spec2Isabelle
  imports Complex_Main "HOL-Library.Word"
begin

section \<open>Voice anti-spoofing front end: ingestion pipeline of \<open>API/streamlit_app.py\<close>\<close>

text \<open>
  The development embeds the three functions of \<^verbatim>\<open>src/API/streamlit_app.py\<close> that carry
  logic: \<^verbatim>\<open>extract_audio_metadata\<close>, \<^verbatim>\<open>process_audio_file\<close> and the result card of
  \<^verbatim>\<open>render_results\<close>.

  Conventions.
  \<^item> A Python exception is a value of \<open>exn\<close>; a call that may raise returns \<open>exn + 'a\<close>
    with \<open>Inl\<close> for the exception. Only subclasses of \<^verbatim>\<open>Exception\<close> are modelled, which is
    what \<^verbatim>\<open>except Exception\<close> catches.
  \<^item> Floating-point numbers are idealised: a sample is a \<open>real\<close>, a scalar metric is a
    \<open>pyfloat\<close> (a real or the not-a-number sentinel). Rounding is not modelled, except that
    the coercion to single precision is a function supplied by the numeric library.
  \<^item> The file system is a finite map from path strings to nodes, threaded through the calls
    that touch it. Writing to the console is a call that may raise.
  \<^item> Library code that is not part of the repository (\<^verbatim>\<open>soundfile\<close>, \<^verbatim>\<open>librosa\<close>,
    \<^verbatim>\<open>tempfile\<close>, \<^verbatim>\<open>shutil\<close>, the console, the classifier \<^verbatim>\<open>infa_deepfake\<close>) is a
    field of the record \<open>libs\<close>;
    every theorem holds for all values of these fields unless it says otherwise.
\<close>

subsection \<open>Values\<close>

datatype exn =
    LibsndfileError
  | ParameterError
  | OSError
  | FileExistsError
  | ZeroDivisionError
  | ValueError
  | UnicodeEncodeError
  | OtherException string

type_synonym bytes = "8 word list"

text \<open>A Python float that may be the not-a-number sentinel \<^verbatim>\<open>float("nan")\<close>.\<close>

datatype pyfloat = Num real | NaN

text \<open>
  A numpy array as \<^verbatim>\<open>sf.read(..., always_2d=False)\<close> returns it: one-dimensional for a
  single channel, otherwise two-dimensional with one row per frame and one column per channel.
\<close>

datatype ndarray = Arr1 "real list" | Arr2 "real list list"

text \<open>
  The object the classifier returns as its message. \<^verbatim>\<open>render_results\<close> applies \<^verbatim>\<open>str\<close> to it,
  so an object that is not a string is represented by its \<^verbatim>\<open>str\<close> form.
\<close>

datatype msg = MStr string | MObj string

fun py_str :: "msg \<Rightarrow> string" where
  "py_str (MStr s) = s"
| "py_str (MObj r) = r"

subsection \<open>Strings: \<^verbatim>\<open>str.lower\<close> and the \<^verbatim>\<open>in\<close> operator\<close>

text \<open>
  A Python string is held as the bytes of its UTF-8 form. \<^verbatim>\<open>str.lower\<close> maps the letters
  A to Z to a to z. Among the other characters it is followed where its result holds an ASCII
  letter that a search for a word can meet: the Kelvin sign U+212A, bytes E2 84 AA, becomes
  \<^verbatim>\<open>k\<close>. Every other character outside ASCII is left as it is; Python may replace it by
  other characters, but the bytes it consists of before and after are all outside ASCII
  (the dotted capital I, U+0130, alone gains an \<^verbatim>\<open>i\<close> in front of a combining mark), so
  the places where the ASCII letters f, a, k, e stand next to each other are the same.
\<close>

definition lower_char :: "char \<Rightarrow> char" where
  "lower_char c =
     (let n = (of_char c :: nat) in if 65 \<le> n \<and> n \<le> 90 then char_of (n + 32) else c)"

fun py_lower :: "string \<Rightarrow> string" where
  "py_lower (c1 # c2 # c3 # s) =
     (if c1 = CHR 0xE2 \<and> c2 = CHR 0x84 \<and> c3 = CHR 0xAA then CHR ''k'' # py_lower s
      else lower_char c1 # py_lower (c2 # c3 # s))"
| "py_lower (c # s) = lower_char c # py_lower s"
| "py_lower [] = []"

text \<open>\<^verbatim>\<open>needle in hay\<close> for strings: some suffix of \<open>hay\<close> starts with \<open>needle\<close>.\<close>

fun py_in :: "string \<Rightarrow> string \<Rightarrow> bool" where
  "py_in needle [] = (needle = [])"
| "py_in needle (c # hay) = (take (length needle) (c # hay) = needle \<or> py_in needle hay)"

subsection \<open>The result card of \<^verbatim>\<open>render_results\<close> (lines 121 to 165)\<close>

text \<open>
  The card is the HTML block passed to \<^verbatim>\<open>st.markdown\<close>; the record keeps the values the
  source interpolates into it. The pictographs that precede the three titles in the source are
  left out of the strings.
\<close>

record result_card =
  bg :: string
  border :: string
  heading_color :: string
  text_color :: string
  title :: string
  body :: string

datatype ui_call = St_markdown result_card | St_write msg

definition render_result_card :: "int \<Rightarrow> msg \<Rightarrow> ui_call list" where
  "render_result_card status message =
     (if status = 1 then
        (let is_fake = py_in ''fake'' (py_lower (py_str message)) in
         if is_fake then
           [St_markdown \<lparr>bg = ''#fee2e2'', border = ''#fecaca'', heading_color = ''#b91c1c'',
                         text_color = ''#7f1d1d'', title = ''Deepfake Detected'',
                         body = py_str message\<rparr>]
         else
           [St_markdown \<lparr>bg = ''#dcfce7'', border = ''#bbf7d0'', heading_color = ''#166534'',
                         text_color = ''#065f46'', title = ''Real Audio'',
                         body = py_str message\<rparr>])
      else
        [St_markdown \<lparr>bg = ''#fef9c3'', border = ''#fef08a'', heading_color = ''#854d0e'',
                      text_color = ''#713f12'', title = ''Inference Failed'',
                      body = ''Something went wrong while processing this audio.''\<rparr>,
         St_write message])"

text \<open>The three states a reader of the page can tell apart, read off the rendered cards.\<close>

datatype card_state = Deepfake_verdict | Real_verdict | Inference_failed

fun card_titles :: "ui_call list \<Rightarrow> string list" where
  "card_titles [] = []"
| "card_titles (St_markdown c # us) = title c # card_titles us"
| "card_titles (St_write m # us) = card_titles us"

definition shown_state :: "ui_call list \<Rightarrow> card_state option" where
  "shown_state us =
     (let ts = card_titles us in
      if ts = [''Deepfake Detected''] then Some Deepfake_verdict
      else if ts = [''Real Audio''] then Some Real_verdict
      else if ts = [''Inference Failed''] then Some Inference_failed
      else None)"

subsection \<open>File system and the libraries outside the repository\<close>

datatype node = Dir | File bytes

type_synonym fs = "string \<Rightarrow> node option"

text \<open>
  \<^verbatim>\<open>os.path.join(a, b)\<close> on a POSIX system: an absolute second component replaces the
  first; otherwise the two are joined with one separator.
\<close>

definition path_join :: "string \<Rightarrow> string \<Rightarrow> string" where
  "path_join a b =
     (if b \<noteq> [] \<and> hd b = CHR ''/'' then b
      else if a = [] \<or> last a = CHR ''/'' then a @ b
      else a @ ''/'' @ b)"

text \<open>A path lies below a directory when it extends the directory's path by a separator.\<close>

definition below :: "string \<Rightarrow> string \<Rightarrow> bool" where
  "below d p = (take (length d + 1) p = d @ ''/'')"

text \<open>A value handed to \<^verbatim>\<open>print\<close>: a string or an exception object.\<close>

datatype printed = PStr string | PExn exn

text \<open>What \<^verbatim>\<open>open(path, "wb")\<close> followed by \<^verbatim>\<open>f.write(data)\<close> can do.\<close>

datatype write_outcome =
    Written
  | Open_raises exn
  | Write_raises exn bytes

text \<open>
  The collaborators that are not code of the repository. Each is an arbitrary function of
  its arguments.
  \<^item> \<open>mkdtemp_pick\<close>: the name \<^verbatim>\<open>tempfile.mkdtemp\<close> settles on, or the exception it raises.
  \<^item> \<open>open_wb\<close>: the outcome of writing the staged file.
  \<^item> \<open>sf_decode\<close>: \<^verbatim>\<open>sf.read\<close> on the content of a file (the path gives the extension):
    samples and native sample rate, or a decode error.
  \<^item> \<open>to_float32\<close>: the rounding of one sample by \<^verbatim>\<open>np.array(y, dtype=np.float32)\<close>.
  \<^item> \<open>librosa_resample\<close>, \<open>librosa_yin\<close>, \<open>librosa_rms\<close>: the resampler and the
    per-frame pitch and energy estimators, on a one-dimensional signal.
  \<^item> \<open>yin_frame_length\<close>: the analysis window of the pitch estimator, in samples.
  \<^item> \<open>infa_deepfake\<close>: the classifier, which reads the file system, may change it, and
    returns status and message or raises.
  \<^item> \<open>console_print\<close>: \<^verbatim>\<open>print\<close> of the given values to standard output: the exception
    it raises, if any (a text that the console's encoding cannot express, a closed stream).
  \<^item> \<open>rmtree_fails\<close>: whether the operating system refuses the deletion of a tree.
\<close>

record libs =
  mkdtemp_pick :: "fs \<Rightarrow> exn + string"
  open_wb :: "fs \<Rightarrow> string \<Rightarrow> bytes \<Rightarrow> write_outcome"
  sf_decode :: "string \<Rightarrow> bytes \<Rightarrow> exn + (ndarray \<times> nat)"
  to_float32 :: "real \<Rightarrow> real"
  librosa_resample :: "real list \<Rightarrow> nat \<Rightarrow> nat \<Rightarrow> exn + real list"
  librosa_yin :: "real list \<Rightarrow> nat \<Rightarrow> nat \<Rightarrow> exn + pyfloat list"
  librosa_rms :: "real list \<Rightarrow> exn + pyfloat list"
  yin_frame_length :: nat
  infa_deepfake :: "fs \<Rightarrow> string \<Rightarrow> (exn + (int \<times> msg)) \<times> fs"
  console_print :: "printed list \<Rightarrow> exn option"
  rmtree_fails :: "fs \<Rightarrow> string \<Rightarrow> bool"

text \<open>
  \<^verbatim>\<open>shutil.rmtree(d, ignore_errors=True)\<close>: when the deletion goes through, the directory
  and everything below it are gone afterwards. When it does not, \<^verbatim>\<open>ignore_errors=True\<close>
  swallows the error: the call returns as if nothing had happened and the directory stays.
  Either way it raises nothing.
\<close>

definition rmtree :: "libs \<Rightarrow> string \<Rightarrow> fs \<Rightarrow> fs" where
  "rmtree L d fs =
     (if rmtree_fails L fs d then fs
      else (\<lambda>p. if p = d \<or> below d p then None else fs p))"

text \<open>
  \<^verbatim>\<open>tempfile.mkdtemp()\<close>: creates a directory that did not exist before and returns its
  path; a name that is taken is a \<^verbatim>\<open>FileExistsError\<close>.
\<close>

definition mkdtemp :: "libs \<Rightarrow> fs \<Rightarrow> exn + (string \<times> fs)" where
  "mkdtemp L fs =
     (case mkdtemp_pick L fs of
        Inl e \<Rightarrow> Inl e
      | Inr d \<Rightarrow> (case fs d of
                    Some n \<Rightarrow> Inl FileExistsError
                  | None \<Rightarrow> Inr (d, fs(d \<mapsto> Dir))))"

text \<open>
  The \<^verbatim>\<open>with open(temp_file_path, "wb") as f: f.write(data)\<close> block: on success the file
  holds the data; when \<^verbatim>\<open>open\<close> raises nothing is created; when \<^verbatim>\<open>write\<close> raises the file
  exists with what had been written.
\<close>

definition stage_file :: "libs \<Rightarrow> fs \<Rightarrow> string \<Rightarrow> bytes \<Rightarrow> (exn + unit) \<times> fs" where
  "stage_file L fs path data =
     (case open_wb L fs path data of
        Written \<Rightarrow> (Inr (), fs(path \<mapsto> File data))
      | Open_raises e \<Rightarrow> (Inl e, fs)
      | Write_raises e part \<Rightarrow> (Inl e, fs(path \<mapsto> File part)))"

text \<open>\<^verbatim>\<open>sf.read(filepath, always_2d=False)\<close>: only a regular file can be decoded.\<close>

definition sf_read :: "libs \<Rightarrow> fs \<Rightarrow> string \<Rightarrow> exn + (ndarray \<times> nat)" where
  "sf_read L fs filepath =
     (case fs filepath of
        Some (File content) \<Rightarrow> sf_decode L filepath content
      | Some Dir \<Rightarrow> Inl LibsndfileError
      | None \<Rightarrow> Inl LibsndfileError)"

text \<open>
  Modelled from the spec: \<^verbatim>\<open>np.mean(y, axis=1)\<close> is numpy code; the spec says the channels
  are averaged sample-wise. One mean per frame, over the columns of that frame.
\<close>

definition np_mean_axis1 :: "real list list \<Rightarrow> real list" where
  "np_mean_axis1 rows = map (\<lambda>r. sum_list r / real (length r)) rows"

text \<open>
  Modelled from the spec: \<^verbatim>\<open>librosa.get_duration(y=y, sr=sr)\<close> is library code; the spec
  says the duration is the sample count divided by the sample rate. The division is Python's,
  which raises for a zero rate.
\<close>

definition get_duration :: "real list \<Rightarrow> nat \<Rightarrow> exn + real" where
  "get_duration y rate =
     (if rate = 0 then Inl ZeroDivisionError
      else Inr (real (length y) / real rate))"

text \<open>
  Modelled from the spec: \<^verbatim>\<open>np.nanmean\<close> averages the per-frame estimates ignoring the
  undefined ones, and is the undefined sentinel when no frame has a value.
\<close>

fun defined_values :: "pyfloat list \<Rightarrow> real list" where
  "defined_values [] = []"
| "defined_values (Num x # fs) = x # defined_values fs"
| "defined_values (NaN # fs) = defined_values fs"

definition nanmean :: "pyfloat list \<Rightarrow> pyfloat" where
  "nanmean frames =
     (let vs = defined_values frames in
      if vs = [] then NaN else Num (sum_list vs / real (length vs)))"

subsection \<open>\<^verbatim>\<open>extract_audio_metadata\<close> (lines 23 to 62)\<close>

record audio_info =
  samples :: nat
  sr :: nat
  duration :: real
  avg_pitch :: pyfloat
  avg_energy :: pyfloat
  waveform :: "real list"

text \<open>
  Lines 28 and 29: an array with more than one dimension is replaced by its mean over the
  channel axis; a one-dimensional array is kept. Either way the signal is one sequence with
  one value per frame from here on.
\<close>

fun mono_collapse :: "ndarray \<Rightarrow> real list" where
  "mono_collapse (Arr2 rows) = np_mean_axis1 rows"
| "mono_collapse (Arr1 xs) = xs"

text \<open>
  Lines 28 to 38 on a decoded signal: collapse to mono, coerce to single precision, and
  resample when the native rate is not the target rate. The resampler is not guarded, so its
  exception leaves the function.
\<close>

definition target_sr :: nat where
  "target_sr = 16000"

definition normalize_signal :: "libs \<Rightarrow> ndarray \<Rightarrow> nat \<Rightarrow> exn + (real list \<times> nat)" where
  "normalize_signal L y0 rate =
     (let y1 = mono_collapse y0;
          y2 = map (to_float32 L) y1
      in if rate \<noteq> target_sr then
           (case librosa_resample L y2 rate target_sr of
              Inl e \<Rightarrow> Inl e
            | Inr y3 \<Rightarrow> Inr (y3, target_sr))
         else Inr (y2, rate))"

text \<open>
  Lines 40 to 62 on the normalised signal. The duration is computed outside any handler; the
  pitch and the energy each sit in their own \<^verbatim>\<open>try\<close> whose handler yields the sentinel.
\<close>

definition compute_descriptors :: "libs \<Rightarrow> real list \<Rightarrow> nat \<Rightarrow> exn + audio_info" where
  "compute_descriptors L y rate =
     (case get_duration y rate of
        Inl e \<Rightarrow> Inl e
      | Inr d \<Rightarrow>
          (let p = (case librosa_yin L y 50 300 of
                      Inl e \<Rightarrow> NaN
                    | Inr pitch \<Rightarrow> nanmean pitch);
               en = (case librosa_rms L y of
                       Inl e \<Rightarrow> NaN
                     | Inr rms \<Rightarrow> nanmean rms)
           in Inr \<lparr>samples = length y, sr = rate, duration = d,
                    avg_pitch = p, avg_energy = en, waveform = y\<rparr>))"

definition extract_audio_metadata :: "libs \<Rightarrow> fs \<Rightarrow> string \<Rightarrow> exn + audio_info" where
  "extract_audio_metadata L fs filepath =
     (case sf_read L fs filepath of
        Inl e \<Rightarrow> Inl e
      | Inr (y0, rate0) \<Rightarrow>
          (case normalize_signal L y0 rate0 of
             Inl e \<Rightarrow> Inl e
           | Inr (y, rate) \<Rightarrow> compute_descriptors L y rate))"

subsection \<open>\<^verbatim>\<open>process_audio_file\<close> (lines 65 to 105)\<close>

text \<open>
  The uploaded object: its display name and what \<^verbatim>\<open>read()\<close> gives, the remaining bytes or
  an exception.
\<close>

record uploaded_file =
  uf_name :: string
  uf_read :: "exn + bytes"

text \<open>The record substituted when extraction raises (lines 91 to 98).\<close>

definition default_info :: audio_info where
  "default_info = \<lparr>samples = 0, sr = 0, duration = 0, avg_pitch = NaN,
                    avg_energy = NaN, waveform = []\<rparr>"

text \<open>
  The body of the outer \<^verbatim>\<open>try\<close> (lines 81 to 100): read, stage, extract with the fallback,
  classify. The handler of the inner \<^verbatim>\<open>try\<close> prints the exception before it builds the
  default record, and an exception of that \<^verbatim>\<open>print\<close> leaves the body. The body returns the
  value or the exception that leaves the block, and the file system at that point.
\<close>

definition try_body ::
  "libs \<Rightarrow> uploaded_file \<Rightarrow> string \<Rightarrow> fs \<Rightarrow> (exn + (int \<times> msg \<times> audio_info)) \<times> fs" where
  "try_body L uf temp_file_path fs =
     (case uf_read uf of
        Inl e \<Rightarrow> (Inl e, fs)
      | Inr data \<Rightarrow>
          (case stage_file L fs temp_file_path data of
             (Inl e, fs1) \<Rightarrow> (Inl e, fs1)
           | (Inr u, fs1) \<Rightarrow>
               (case (case extract_audio_metadata L fs1 temp_file_path of
                        Inl e \<Rightarrow>
                          (case console_print L [PStr ''Metadata extraction failed:'', PExn e] of
                             Some e' \<Rightarrow> Inl e'
                           | None \<Rightarrow> Inr default_info)
                      | Inr i \<Rightarrow> Inr i) of
                  Inl e' \<Rightarrow> (Inl e', fs1)
                | Inr info \<Rightarrow>
                    (case infa_deepfake L fs1 temp_file_path of
                       (Inl e, fs2) \<Rightarrow> (Inl e, fs2)
                     | (Inr (status, message), fs2) \<Rightarrow>
                         (Inr (status, message, info), fs2)))))"

text \<open>
  The whole function. Lines 76 to 78 run before the \<^verbatim>\<open>try\<close>: the directory is made, the
  path of the staged file is formed and printed. An exception of that \<^verbatim>\<open>print\<close> leaves the
  function at once, with the directory in place, since the \<^verbatim>\<open>finally\<close> clause belongs to
  the \<^verbatim>\<open>try\<close> that has not been entered. Once the body is entered, the \<^verbatim>\<open>finally\<close> clause
  calls \<^verbatim>\<open>rmtree\<close> on every way out of it, and the result or the exception of the body is
  what the caller gets.
\<close>

definition process_audio_file ::
  "libs \<Rightarrow> uploaded_file \<Rightarrow> fs \<Rightarrow> (exn + (int \<times> msg \<times> audio_info)) \<times> fs" where
  "process_audio_file L uf fs =
     (case mkdtemp L fs of
        Inl e \<Rightarrow> (Inl e, fs)
      | Inr (temp_dir, fs0) \<Rightarrow>
          (let temp_file_path = path_join temp_dir (uf_name uf) in
           case console_print L [PStr ''filepath: '', PStr temp_file_path] of
             Some e \<Rightarrow> (Inl e, fs0)
           | None \<Rightarrow>
               (let (r, fs1) = try_body L uf temp_file_path fs0
                in (r, rmtree L temp_dir fs1))))"

subsection \<open>A concrete environment\<close>

text \<open>
  One instance of the libraries, small enough to run by hand. The decoder rejects an empty
  file, reads a one-byte file as a mono signal at the target rate and anything longer as a
  stereo signal at 8000 Hz. Single precision is played by rounding down to a multiple of
  \<open>1/1024\<close>, the resampler doubles every sample, the pitch estimator has a window of 2048
  samples and raises below three samples, and the classifier answers for a regular file and
  reports a missing one. The console takes every text and every deletion goes through.
\<close>

definition example_libs :: libs where
  "example_libs =
     \<lparr>mkdtemp_pick = (\<lambda>fs. Inr ''/tmp/tmpq7''),
      open_wb = (\<lambda>fs p d. Written),
      sf_decode = (\<lambda>p b. case b of
                      [] \<Rightarrow> Inl LibsndfileError
                    | [x] \<Rightarrow> Inr (Arr1 [1/2, -1/2], 16000)
                    | x # x' # xs \<Rightarrow> Inr (Arr2 [[1, 0], [1/2, 1/4]], 8000)),
      to_float32 = (\<lambda>x. real_of_int \<lfloor>x * 1024\<rfloor> / 1024),
      librosa_resample = (\<lambda>y a b. Inr (concat (map (\<lambda>x. [x, x]) y))),
      librosa_yin = (\<lambda>y lo hi. if length y < 3 then Inl ParameterError
                               else Inr [Num 100, NaN, Num 140]),
      librosa_rms = (\<lambda>y. Inr (map (\<lambda>x. Num \<bar>x\<bar>) y)),
      yin_frame_length = 2048,
      infa_deepfake = (\<lambda>fs p. ((case fs p of
                                   Some (File b) \<Rightarrow> Inr (1, MStr ''Fake voice detected'')
                                 | Some Dir \<Rightarrow> Inr (0, MStr ''not a file'')
                                 | None \<Rightarrow> Inr (0, MStr ''file not found'')), fs)),
      console_print = (\<lambda>vs. None),
      rmtree_fails = (\<lambda>fs d. False)\<rparr>"

text \<open>
  A console whose encoding is ASCII: \<^verbatim>\<open>print\<close> raises on a string with a byte outside
  ASCII. An upload whose name has such a character, here a lower-case e with an acute accent
  in UTF-8, as a browser sends it.
\<close>

fun ascii_printable :: "printed \<Rightarrow> bool" where
  "ascii_printable (PStr s) = list_all (\<lambda>c. (of_char c :: nat) < 128) s"
| "ascii_printable (PExn e) = True"

definition ascii_console_libs :: libs where
  "ascii_console_libs =
     example_libs\<lparr>console_print :=
       (\<lambda>vs. if list_all ascii_printable vs then None else Some UnicodeEncodeError)\<rparr>"

definition accented_upload :: uploaded_file where
  "accented_upload =
     \<lparr>uf_name = [CHR 0xC3, CHR 0xA9] @ ''.wav'', uf_read = Inr [82, 73, 70]\<rparr>"

text \<open>
  A pitch estimator that centres its frames by padding the signal with half a window on
  both sides, as \<^verbatim>\<open>librosa.yin\<close> does by default: it returns an estimate for a signal of
  any length, one frame for each started hop of 512 samples.
\<close>

definition padding_yin_libs :: libs where
  "padding_yin_libs =
     example_libs\<lparr>librosa_yin :=
       (\<lambda>y lo hi. Inr (replicate (1 + length y div 512) (Num (real hi))))\<rparr>"

definition stereo_upload :: uploaded_file where
  "stereo_upload = \<lparr>uf_name = ''clip.wav'', uf_read = Inr [82, 73, 70]\<rparr>"

definition corrupt_upload :: uploaded_file where
  "corrupt_upload = \<lparr>uf_name = ''broken.mp3'', uf_read = Inr []\<rparr>"

text \<open>Closeness of two samples up to the step of the rounding above.\<close>

definition within_step :: "real \<Rightarrow> real \<Rightarrow> bool" where
  "within_step x y = (\<bar>x - y\<bar> \<le> 1 / 1024)"

section \<open>Properties\<close>

subsection \<open>Auxiliary facts\<close>

lemma py_in_here: "take (length n) h = n \<Longrightarrow> py_in n h"
  by (cases h) auto

lemma py_in_append: "py_in n (p @ n @ s)"
proof (induction p)
  case Nil
  show ?case by (rule py_in_here) simp
next
  case (Cons a p)
  then show ?case by simp
qed

lemma py_in_split: "py_in n h \<Longrightarrow> \<exists>p s. h = p @ n @ s"
proof (induction h)
  case Nil
  then show ?case by simp
next
  case (Cons c h)
  show ?case
  proof (cases "take (length n) (c # h) = n")
    case True
    have "c # h = take (length n) (c # h) @ drop (length n) (c # h)"
      by (simp only: append_take_drop_id)
    with True have "c # h = [] @ n @ drop (length n) (c # h)"
      by simp
    then show ?thesis by blast
  next
    case False
    with Cons.prems have "py_in n h" by simp
    then obtain p s where "h = p @ n @ s" using Cons.IH by blast
    then have "c # h = (c # p) @ n @ s" by simp
    then show ?thesis by blast
  qed
qed

text \<open>The recursive test is Python's substring relation.\<close>

lemma py_in_iff: "py_in n h \<longleftrightarrow> (\<exists>p s. h = p @ n @ s)"
  using py_in_append py_in_split by blast

lemma rmtree_self: "\<not> rmtree_fails L fs d \<Longrightarrow> rmtree L d fs d = None"
  by (simp add: rmtree_def)

lemma rmtree_below: "\<not> rmtree_fails L fs d \<Longrightarrow> below d p \<Longrightarrow> rmtree L d fs p = None"
  by (simp add: rmtree_def)

lemma mkdtemp_creates:
  "mkdtemp L fs = Inr (d, fs0) \<Longrightarrow> fs d = None \<and> fs0 = fs(d \<mapsto> Dir)"
  by (auto simp: mkdtemp_def split: sum.splits option.splits)

text \<open>
  Once the directory exists and line 78 has printed, the function is its body followed by
  the call of \<^verbatim>\<open>rmtree\<close>.
\<close>

lemma process_audio_file_unfold:
  "mkdtemp L fs = Inr (d, fs0) \<Longrightarrow>
   console_print L [PStr ''filepath: '', PStr (path_join d (uf_name uf))] = None \<Longrightarrow>
   process_audio_file L uf fs =
     (fst (try_body L uf (path_join d (uf_name uf)) fs0),
      rmtree L d (snd (try_body L uf (path_join d (uf_name uf)) fs0)))"
  by (simp add: process_audio_file_def Let_def split: prod.splits)

text \<open>When line 78 raises, the function ends there and the new directory is still present.\<close>

lemma process_audio_file_print_raises:
  "mkdtemp L fs = Inr (d, fs0) \<Longrightarrow>
   console_print L [PStr ''filepath: '', PStr (path_join d (uf_name uf))] = Some e \<Longrightarrow>
   process_audio_file L uf fs = (Inl e, fs0) \<and> fs0 d = Some Dir"
  using mkdtemp_creates [of L fs d fs0]
  by (simp add: process_audio_file_def Let_def)

text \<open>
  Once the body of the \<^verbatim>\<open>try\<close> is entered, every way out of it passes through
  \<^verbatim>\<open>rmtree\<close>: the directory and all below it are gone whenever the deletion goes through,
  whatever reading, staging, extraction and classification did.
\<close>

lemma finally_removes_directory:
  assumes "mkdtemp L fs = Inr (d, fs0)"
    and "console_print L [PStr ''filepath: '', PStr (path_join d (uf_name uf))] = None"
    and "\<not> rmtree_fails L (snd (try_body L uf (path_join d (uf_name uf)) fs0)) d"
  shows "snd (process_audio_file L uf fs) d = None \<and>
         (\<forall>p. below d p \<longrightarrow> snd (process_audio_file L uf fs) p = None)"
  using assms by (simp add: process_audio_file_unfold rmtree_self rmtree_below)

text \<open>
  After a successful staging, an extraction that raises and a handler whose \<^verbatim>\<open>print\<close>
  returns, the body's outcome is the classifier's, with the default record.
\<close>

lemma try_body_fallback:
  assumes "uf_read uf = Inr data"
    and "stage_file L fs0 path data = (Inr u, fs1)"
    and "extract_audio_metadata L fs1 path = Inl e"
    and "console_print L [PStr ''Metadata extraction failed:'', PExn e] = None"
  shows "fst (try_body L uf path fs0) =
     (case fst (infa_deepfake L fs1 path) of
        Inl e' \<Rightarrow> Inl e'
      | Inr (status, message) \<Rightarrow> Inr (status, message, default_info))"
  using assms
  by (simp add: try_body_def split: prod.splits sum.splits)

lemma compute_descriptors_target:
  "compute_descriptors L y target_sr =
     Inr \<lparr>samples = length y, sr = 16000, duration = real (length y) / 16000,
          avg_pitch = (case librosa_yin L y 50 300 of Inl e \<Rightarrow> NaN | Inr f \<Rightarrow> nanmean f),
          avg_energy = (case librosa_rms L y of Inl e \<Rightarrow> NaN | Inr f \<Rightarrow> nanmean f),
          waveform = y\<rparr>"
  by (simp add: compute_descriptors_def get_duration_def target_sr_def Let_def)

lemma normalize_signal_rate:
  "normalize_signal L y0 rate0 = Inr (y, rate) \<Longrightarrow> rate = target_sr"
  by (auto simp: normalize_signal_def Let_def split: if_splits sum.splits)

lemma extract_audio_metadata_Inr:
  assumes "extract_audio_metadata L fs p = Inr i"
  obtains y0 rate0 y where "sf_read L fs p = Inr (y0, rate0)"
    and "normalize_signal L y0 rate0 = Inr (y, target_sr)"
    and "compute_descriptors L y target_sr = Inr i"
proof -
  from assms obtain y0 rate0 y rate where a: "sf_read L fs p = Inr (y0, rate0)"
    and b: "normalize_signal L y0 rate0 = Inr (y, rate)"
    and c: "compute_descriptors L y rate = Inr i"
    by (auto simp: extract_audio_metadata_def split: sum.splits prod.splits)
  from b have "rate = target_sr" by (rule normalize_signal_rate)
  with a b c that show thesis by simp
qed

text \<open>The definitions that a run of the pipeline unfolds.\<close>

lemmas run_defs = process_audio_file_def try_body_def stage_file_def mkdtemp_def path_join_def
  extract_audio_metadata_def sf_read_def normalize_signal_def compute_descriptors_def
  get_duration_def nanmean_def np_mean_axis1_def target_sr_def default_info_def
  rmtree_def below_def Let_def

subsection \<open>The result card\<close>

text \<open>
  C6. For every status and message \<^verbatim>\<open>render_results\<close> shows exactly one of three states:
  with status 1 the deepfake card when the lower-cased string form of the message contains
  \<^verbatim>\<open>fake\<close> and the real-audio card when it does not; with any other status the
  inference-failed card, followed by the message itself. No fourth state exists.
\<close>

theorem render_results_three_states:
  "(status = 1 \<and> (\<exists>p s. py_lower (py_str message) = p @ ''fake'' @ s) \<longrightarrow>
      shown_state (render_result_card status message) = Some Deepfake_verdict) \<and>
   (status = 1 \<and> \<not> (\<exists>p s. py_lower (py_str message) = p @ ''fake'' @ s) \<longrightarrow>
      shown_state (render_result_card status message) = Some Real_verdict) \<and>
   (status \<noteq> 1 \<longrightarrow>
      shown_state (render_result_card status message) = Some Inference_failed \<and>
      St_write message \<in> set (render_result_card status message)) \<and>
   shown_state (render_result_card status message) \<noteq> None"
  by (simp add: render_result_card_def shown_state_def py_in_iff Let_def)

theorem render_results_three_states_witness:
  "shown_state (render_result_card 1 (MStr ''Fake voice detected'')) = Some Deepfake_verdict \<and>
   shown_state (render_result_card 1 (MStr ''Real voice detected'')) = Some Real_verdict \<and>
   shown_state (render_result_card 0 (MStr ''model not loaded'')) = Some Inference_failed"
proof -
  have "py_in ''fake'' (py_lower (py_str (MStr ''Fake voice detected'')))"
    by code_simp
  then have a: "\<exists>p s. py_lower (py_str (MStr ''Fake voice detected'')) = p @ ''fake'' @ s"
    using py_in_iff by blast
  have "\<not> py_in ''fake'' (py_lower (py_str (MStr ''Real voice detected'')))"
    by code_simp
  then have b: "\<not> (\<exists>p s. py_lower (py_str (MStr ''Real voice detected'')) = p @ ''fake'' @ s)"
    using py_in_iff by blast
  have c: "(0::int) \<noteq> 1" by simp
  from a b c
    render_results_three_states [of 1 "MStr ''Fake voice detected''"]
    render_results_three_states [of 1 "MStr ''Real voice detected''"]
    render_results_three_states [of 0 "MStr ''model not loaded''"]
  show ?thesis by blast
qed

subsection \<open>The orchestrator: cleanup and the fallback record\<close>

text \<open>
  C1. The claim is that the temporary directory of a request never outlives the call of
  \<^verbatim>\<open>process_audio_file\<close>. The function does not keep it: line 78 prints the staged path
  after \<^verbatim>\<open>mkdtemp\<close> and before the \<^verbatim>\<open>try\<close>, so when that \<^verbatim>\<open>print\<close> raises the
  \<^verbatim>\<open>finally\<close> clause never runs. With a console that encodes ASCII only and an upload whose
  name has an accented letter, the call ends with \<^verbatim>\<open>UnicodeEncodeError\<close> and the directory
  that \<^verbatim>\<open>mkdtemp\<close> made is still there.
\<close>

theorem print_before_try_leaves_directory:
  "mkdtemp ascii_console_libs Map.empty = Inr (''/tmp/tmpq7'', [''/tmp/tmpq7'' \<mapsto> Dir]) \<and>
   fst (process_audio_file ascii_console_libs accented_upload Map.empty) =
     Inl UnicodeEncodeError \<and>
   snd (process_audio_file ascii_console_libs accented_upload Map.empty) ''/tmp/tmpq7'' =
     Some Dir"
proof -
  have m: "mkdtemp ascii_console_libs Map.empty =
      Inr (''/tmp/tmpq7'', [''/tmp/tmpq7'' \<mapsto> Dir])"
    by (simp add: mkdtemp_def ascii_console_libs_def example_libs_def)
  have "\<not> list_all ascii_printable
      [PStr ''filepath: '', PStr (path_join ''/tmp/tmpq7'' (uf_name accented_upload))]"
    by code_simp
  then have c: "console_print ascii_console_libs
      [PStr ''filepath: '', PStr (path_join ''/tmp/tmpq7'' (uf_name accented_upload))] =
      Some UnicodeEncodeError"
    by (simp add: ascii_console_libs_def)
  from process_audio_file_print_raises [OF m c] m show ?thesis by simp
qed

text \<open>
  C2. When the upload was staged and \<^verbatim>\<open>extract_audio_metadata\<close> raises on the staged file,
  \<^verbatim>\<open>process_audio_file\<close> calls the classifier on the staged path and returns the status and
  message it reports, together with the record of defaults: no samples, rate 0, duration 0,
  undefined pitch and energy, empty waveform. The two \<^verbatim>\<open>print\<close> calls on the way, of the
  path on line 78 and of the exception on line 90, are taken to return, as they must for the
  run to reach the extraction and the classifier.
\<close>

theorem extraction_failure_defaults:
  assumes "mkdtemp L fs = Inr (temp_dir, fs0)"
    and "console_print L
           [PStr ''filepath: '', PStr (path_join temp_dir (uf_name uf))] = None"
    and "uf_read uf = Inr data"
    and "stage_file L fs0 (path_join temp_dir (uf_name uf)) data = (Inr u, fs1)"
    and "extract_audio_metadata L fs1 (path_join temp_dir (uf_name uf)) = Inl e"
    and "console_print L [PStr ''Metadata extraction failed:'', PExn e] = None"
    and "infa_deepfake L fs1 (path_join temp_dir (uf_name uf)) = (Inr (status, message), fs2)"
  shows "fst (process_audio_file L uf fs) =
           Inr (status, message,
                \<lparr>samples = 0, sr = 0, duration = 0, avg_pitch = NaN,
                 avg_energy = NaN, waveform = []\<rparr>)"
  using assms
  by (simp add: process_audio_file_unfold try_body_fallback default_info_def)

theorem extraction_failure_defaults_witness:
  "mkdtemp example_libs Map.empty = Inr (''/tmp/tmpq7'', [''/tmp/tmpq7'' \<mapsto> Dir]) \<and>
   uf_read corrupt_upload = Inr [] \<and>
   stage_file example_libs [''/tmp/tmpq7'' \<mapsto> Dir]
       (path_join ''/tmp/tmpq7'' (uf_name corrupt_upload)) [] =
     (Inr (), [''/tmp/tmpq7'' \<mapsto> Dir, ''/tmp/tmpq7/broken.mp3'' \<mapsto> File []]) \<and>
   extract_audio_metadata example_libs
       [''/tmp/tmpq7'' \<mapsto> Dir, ''/tmp/tmpq7/broken.mp3'' \<mapsto> File []]
       (path_join ''/tmp/tmpq7'' (uf_name corrupt_upload)) = Inl LibsndfileError \<and>
   infa_deepfake example_libs
       [''/tmp/tmpq7'' \<mapsto> Dir, ''/tmp/tmpq7/broken.mp3'' \<mapsto> File []]
       (path_join ''/tmp/tmpq7'' (uf_name corrupt_upload)) =
     (Inr (1, MStr ''Fake voice detected''),
      [''/tmp/tmpq7'' \<mapsto> Dir, ''/tmp/tmpq7/broken.mp3'' \<mapsto> File []]) \<and>
   fst (process_audio_file example_libs corrupt_upload Map.empty) =
     Inr (1, MStr ''Fake voice detected'',
          \<lparr>samples = 0, sr = 0, duration = 0, avg_pitch = NaN,
           avg_energy = NaN, waveform = []\<rparr>)"
proof -
  let ?fs1 = "[''/tmp/tmpq7'' \<mapsto> Dir, ''/tmp/tmpq7/broken.mp3'' \<mapsto> File []]"
  let ?path = "path_join ''/tmp/tmpq7'' (uf_name corrupt_upload)"
  have m: "mkdtemp example_libs Map.empty = Inr (''/tmp/tmpq7'', [''/tmp/tmpq7'' \<mapsto> Dir])"
    by (simp add: mkdtemp_def example_libs_def)
  have p1: "console_print example_libs [PStr ''filepath: '', PStr ?path] = None"
    by (simp add: example_libs_def)
  have r: "uf_read corrupt_upload = Inr []"
    by (simp add: corrupt_upload_def)
  have s: "stage_file example_libs [''/tmp/tmpq7'' \<mapsto> Dir] ?path [] = (Inr (), ?fs1)"
    by (simp add: stage_file_def example_libs_def corrupt_upload_def path_join_def)
  have x: "extract_audio_metadata example_libs ?fs1 ?path = Inl LibsndfileError"
    by (simp add: extract_audio_metadata_def sf_read_def example_libs_def
        corrupt_upload_def path_join_def)
  have p2: "console_print example_libs
      [PStr ''Metadata extraction failed:'', PExn LibsndfileError] = None"
    by (simp add: example_libs_def)
  have c: "infa_deepfake example_libs ?fs1 ?path = (Inr (1, MStr ''Fake voice detected''), ?fs1)"
    by (simp add: example_libs_def corrupt_upload_def path_join_def)
  from extraction_failure_defaults [OF m p1 r s x p2 c] m r s x c
  show ?thesis by blast
qed

subsection \<open>Normalisation and descriptors\<close>

text \<open>
  C3. On every signal at the target rate, the empty and the silent one included, the
  descriptor part of \<^verbatim>\<open>extract_audio_metadata\<close> raises nothing and returns a record with all
  six fields. Sample count, rate, duration and waveform do not depend on the estimators; the
  pitch is the sentinel exactly when its estimator raises or no frame has a value, and
  otherwise the mean of the defined frames, whatever the energy estimator does, and the same
  holds for the energy.
\<close>

theorem descriptors_total:
  "\<exists>i. compute_descriptors L y 16000 = Inr i \<and>
       samples i = length y \<and> sr i = 16000 \<and>
       duration i = real (length y) / 16000 \<and> waveform i = y \<and>
       avg_pitch i = (case librosa_yin L y 50 300 of Inl e \<Rightarrow> NaN | Inr f \<Rightarrow> nanmean f) \<and>
       avg_energy i = (case librosa_rms L y of Inl e \<Rightarrow> NaN | Inr f \<Rightarrow> nanmean f)"
  using compute_descriptors_target [of L y] by (simp add: target_sr_def)

theorem descriptors_total_witness:
  "\<exists>i. compute_descriptors example_libs [] 16000 = Inr i \<and>
       samples i = 0 \<and> sr i = 16000 \<and> duration i = 0 \<and> waveform i = [] \<and>
       avg_pitch i = NaN \<and> avg_energy i = NaN"
  using descriptors_total [of example_libs "[]"]
  by (simp add: example_libs_def nanmean_def)

text \<open>
  C4. Whenever normalisation returns a signal its sample rate is 16000, whatever the native
  rate was, and every record that \<^verbatim>\<open>extract_audio_metadata\<close> returns has 16000 in its
  \<^verbatim>\<open>sr\<close> field.
\<close>

theorem sample_rate_invariant:
  "(normalize_signal L y0 rate0 = Inr (y, rate) \<longrightarrow> rate = 16000) \<and>
   (extract_audio_metadata L fs p = Inr i \<longrightarrow> sr i = 16000)"
proof (intro conjI impI)
  assume "normalize_signal L y0 rate0 = Inr (y, rate)"
  then show "rate = 16000" using normalize_signal_rate by (simp add: target_sr_def)
next
  assume "extract_audio_metadata L fs p = Inr i"
  then obtain y where "compute_descriptors L y target_sr = Inr i"
    by (rule extract_audio_metadata_Inr)
  then show "sr i = 16000" by (auto simp: compute_descriptors_target)
qed

theorem sample_rate_invariant_witness:
  "normalize_signal example_libs (Arr2 [[1, 0], [1/2, 1/4]]) 8000 =
     Inr ([1/2, 1/2, 3/8, 3/8], 16000) \<and>
   extract_audio_metadata example_libs [''clip.wav'' \<mapsto> File [82, 73, 70]] ''clip.wav'' =
     Inr \<lparr>samples = 4, sr = 16000, duration = 1/4000, avg_pitch = Num 120,
          avg_energy = Num (7/16), waveform = [1/2, 1/2, 3/8, 3/8]\<rparr> \<and>
   sr \<lparr>samples = 4, sr = 16000, duration = 1/4000, avg_pitch = Num 120,
       avg_energy = Num (7/16), waveform = [1/2, 1/2, 3/8, 3/8]\<rparr> = 16000"
proof -
  have n: "normalize_signal example_libs (Arr2 [[1, 0], [1/2, 1/4]]) 8000 =
     Inr ([1/2, 1/2, 3/8, 3/8], 16000)"
    by (simp add: run_defs example_libs_def)
  have x: "extract_audio_metadata example_libs [''clip.wav'' \<mapsto> File [82, 73, 70]] ''clip.wav'' =
     Inr \<lparr>samples = 4, sr = 16000, duration = 1/4000, avg_pitch = Num 120,
          avg_energy = Num (7/16), waveform = [1/2, 1/2, 3/8, 3/8]\<rparr>"
    by (simp add: run_defs example_libs_def)
  from n x sample_rate_invariant [of example_libs "Arr2 [[1, 0], [1/2, 1/4]]" 8000
      "[1/2, 1/2, 3/8, 3/8]" 16000 "[''clip.wav'' \<mapsto> File [82, 73, 70]]" "''clip.wav''"
      "\<lparr>samples = 4, sr = 16000, duration = 1/4000, avg_pitch = Num 120,
          avg_energy = Num (7/16), waveform = [1/2, 1/2, 3/8, 3/8]\<rparr>"]
  show ?thesis by blast
qed

text \<open>
  C5. For a decoded signal with more than one channel the mono step yields one value per
  frame, the arithmetic mean of that frame over all channels; a single-channel signal passes
  the step unchanged. The rest of the normaliser sees the channels only through these means:
  its outcome on the multi-channel signal is its outcome on the mono signal of the means.
\<close>

lemma row_mean_sum:
  "sum_list r / real (length r) = (\<Sum>c<length r. r ! c) / real (length r)"
  by (simp add: sum_list_sum_nth atLeast0LessThan)

theorem mono_collapse_mean:
  assumes "1 < ch" and "\<forall>r \<in> set rows. length r = ch"
  shows "length (mono_collapse (Arr2 rows)) = length rows \<and>
         (\<forall>i<length rows. mono_collapse (Arr2 rows) ! i = (\<Sum>c<ch. rows ! i ! c) / real ch) \<and>
         mono_collapse (Arr1 xs) = xs \<and>
         normalize_signal L (Arr2 rows) rate =
           normalize_signal L (Arr1 (mono_collapse (Arr2 rows))) rate"
proof -
  have "mono_collapse (Arr2 rows) ! i = (\<Sum>c<ch. rows ! i ! c) / real ch"
    if "i < length rows" for i
  proof -
    from that assms(2) have "length (rows ! i) = ch" by simp
    with that show ?thesis
      using row_mean_sum [of "rows ! i"] by (simp add: np_mean_axis1_def)
  qed
  then show ?thesis
    by (simp add: np_mean_axis1_def normalize_signal_def)
qed

theorem mono_collapse_mean_witness:
  "length (mono_collapse (Arr2 [[1, 0], [1/2, 1/4]])) = 2 \<and>
   mono_collapse (Arr2 [[1, 0], [1/2, 1/4]]) ! 1 = (1/2 + 1/4) / 2 \<and>
   mono_collapse (Arr1 [1/2, -1/2]) = [1/2, -1/2]"
proof -
  have a: "(1::nat) < 2" by simp
  have b: "\<forall>r \<in> set [[1, 0], [1/2, 1/4 :: real]]. length r = 2" by simp
  have c: "(\<Sum>c<2. [[1, 0], [1/2, 1/4 :: real]] ! 1 ! c) = 1/2 + 1/4"
    by (simp add: lessThan_Suc numeral_2_eq_2)
  from mono_collapse_mean [OF a b, of "[1/2, -1/2]" example_libs 16000]
  have "length (mono_collapse (Arr2 [[1, 0], [1/2, 1/4]])) = length [[1, 0], [1/2, 1/4 :: real]]"
    and "\<forall>i<length [[1, 0], [1/2, 1/4 :: real]].
          mono_collapse (Arr2 [[1, 0], [1/2, 1/4]]) ! i =
            (\<Sum>c<2. [[1, 0], [1/2, 1/4]] ! i ! c) / real (2::nat)"
    and d: "mono_collapse (Arr1 [1/2, -1/2]) = [1/2, -1/2]"
    by blast+
  then have "length (mono_collapse (Arr2 [[1, 0], [1/2, 1/4]])) = 2"
    and "mono_collapse (Arr2 [[1, 0], [1/2, 1/4]]) ! 1 =
           (\<Sum>c<2. [[1, 0], [1/2, 1/4 :: real]] ! 1 ! c) / 2"
    by simp_all
  with c d show ?thesis by simp
qed

text \<open>
  C7, as stated, fails: a short signal does not by itself make the pitch undefined. The
  source has no test of the length; the sentinel comes from the handler of line 46 alone, or
  from frames that are all undefined. With an estimator that pads its input and so returns a
  frame for a two-sample signal, far below its window of 2048 samples, the record has a
  defined average pitch.
\<close>

theorem short_signal_pitch_counterexample:
  "length [1/2, -1/2 :: real] < yin_frame_length padding_yin_libs \<and>
   extract_audio_metadata padding_yin_libs [''mono.wav'' \<mapsto> File [7]] ''mono.wav'' =
     Inr \<lparr>samples = 2, sr = 16000, duration = 1/8000, avg_pitch = Num 300,
          avg_energy = Num (1/2), waveform = [1/2, -1/2]\<rparr>"
  by (simp add: padding_yin_libs_def example_libs_def extract_audio_metadata_def sf_read_def
      normalize_signal_def compute_descriptors_def get_duration_def nanmean_def target_sr_def)

text \<open>
  C7, amended. When a file decodes and normalises to a signal shorter than the window of the
  pitch estimator, \<^verbatim>\<open>extract_audio_metadata\<close> returns a record whose sample count is the
  length of the normalised signal and whose duration is that length divided by 16000, both
  untouched by the pitch estimation. Its average pitch is what the estimator gives on the
  signal: the sentinel when the estimator raises or no frame has a value, and the mean of the
  defined frames otherwise.
\<close>

theorem short_signal_pitch_follows_estimator:
  assumes "sf_read L fs p = Inr (y0, rate0)"
    and "normalize_signal L y0 rate0 = Inr (y, rate)"
    and "length y < yin_frame_length L"
  shows "\<exists>i. extract_audio_metadata L fs p = Inr i \<and>
             avg_pitch i = (case librosa_yin L y 50 300 of
                              Inl e \<Rightarrow> NaN
                            | Inr frames \<Rightarrow> nanmean frames) \<and>
             samples i = length y \<and> duration i = real (length y) / 16000"
proof -
  from assms(2) have r: "rate = target_sr" by (rule normalize_signal_rate)
  with assms(1,2) show ?thesis
    by (simp add: extract_audio_metadata_def compute_descriptors_target)
qed

theorem short_signal_pitch_follows_estimator_witness:
  "sf_read example_libs [''mono.wav'' \<mapsto> File [7]] ''mono.wav'' = Inr (Arr1 [1/2, -1/2], 16000) \<and>
   normalize_signal example_libs (Arr1 [1/2, -1/2]) 16000 = Inr ([1/2, -1/2], 16000) \<and>
   length [1/2, -1/2 :: real] < yin_frame_length example_libs \<and>
   librosa_yin example_libs [1/2, -1/2] 50 300 = Inl ParameterError \<and>
   (\<exists>i. extract_audio_metadata example_libs [''mono.wav'' \<mapsto> File [7]] ''mono.wav'' = Inr i \<and>
        avg_pitch i = NaN \<and> samples i = 2 \<and> duration i = 1/8000)"
proof -
  have a: "sf_read example_libs [''mono.wav'' \<mapsto> File [7]] ''mono.wav'' =
      Inr (Arr1 [1/2, -1/2], 16000)"
    by (simp add: sf_read_def example_libs_def)
  have b: "normalize_signal example_libs (Arr1 [1/2, -1/2]) 16000 = Inr ([1/2, -1/2], 16000)"
    by (simp add: normalize_signal_def target_sr_def example_libs_def)
  have c: "length [1/2, -1/2 :: real] < yin_frame_length example_libs"
    by (simp add: example_libs_def)
  have d: "librosa_yin example_libs [1/2, -1/2] 50 300 = Inl ParameterError"
    by (simp add: example_libs_def)
  from short_signal_pitch_follows_estimator [OF a b c] obtain i
    where i: "extract_audio_metadata example_libs [''mono.wav'' \<mapsto> File [7]] ''mono.wav'' = Inr i"
      "avg_pitch i = (case librosa_yin example_libs [1/2, -1/2] 50 300 of
                        Inl e \<Rightarrow> NaN | Inr frames \<Rightarrow> nanmean frames)"
      "samples i = length [1/2, -1/2 :: real]"
      "duration i = real (length [1/2, -1/2 :: real]) / 16000"
    by blast
  with d have "avg_pitch i = NaN" and "samples i = 2" and "duration i = 1/8000" by simp_all
  with i a b c d show ?thesis by blast
qed

text \<open>
  C8. On a signal that is already canonical, one channel at 16000 Hz, the normaliser does
  not call the resampler and returns the signal coerced to single precision, sample by
  sample: same length, same rate, and every sample related to its input by any closeness
  relation that the coercion respects. When the samples are single precision already the
  output is the input.
\<close>

lemma floor_step: "within_step x (real_of_int \<lfloor>x * 1024\<rfloor> / 1024)"
proof -
  have "real_of_int \<lfloor>x * 1024\<rfloor> \<le> x * 1024" and "x * 1024 < real_of_int \<lfloor>x * 1024\<rfloor> + 1"
    by linarith+
  then show ?thesis
    by (simp add: within_step_def abs_le_iff field_simps)
qed

theorem normalize_canonical_noop:
  assumes "\<forall>x. tol x (to_float32 L x)"
  shows "\<exists>ys. normalize_signal L (Arr1 xs) 16000 = Inr (ys, 16000) \<and>
              length ys = length xs \<and> list_all2 tol xs ys \<and>
              ((\<forall>x \<in> set xs. to_float32 L x = x) \<longrightarrow> ys = xs)"
proof -
  have n: "normalize_signal L (Arr1 xs) 16000 = Inr (map (to_float32 L) xs, 16000)"
    by (simp add: normalize_signal_def target_sr_def)
  have t: "list_all2 tol xs (map (to_float32 L) xs)"
    using assms by (simp add: list_all2_map2 list_all2_same)
  have e: "map (to_float32 L) xs = xs" if "\<forall>x \<in> set xs. to_float32 L x = x"
    using that by (simp add: map_idI)
  from n t e show ?thesis by simp
qed

theorem normalize_canonical_noop_witness:
  "(\<forall>x. within_step x (to_float32 example_libs x)) \<and>
   (\<exists>ys. normalize_signal example_libs (Arr1 [1/3, -1/2]) 16000 = Inr (ys, 16000) \<and>
         length ys = 2 \<and> list_all2 within_step [1/3, -1/2] ys)"
proof -
  have h: "\<forall>x. within_step x (to_float32 example_libs x)"
    by (simp add: example_libs_def floor_step)
  from normalize_canonical_noop [of within_step example_libs "[1/3, -1/2]"] h
  obtain ys where ys: "normalize_signal example_libs (Arr1 [1/3, -1/2]) 16000 = Inr (ys, 16000)"
      "length ys = length [1/3, -1/2 :: real]" "list_all2 within_step [1/3, -1/2] ys"
    by blast
  then have "length ys = 2" by simp
  with ys h show ?thesis by blast
qed

subsection \<open>Undecodable input\<close>

text \<open>
  C9, as stated, fails: a request whose file cannot be decoded still produces a result. In
  the concrete environment the empty upload is rejected by the decoder, and the request
  returns the classifier's verdict with the default record.
\<close>

theorem decode_failure_fatal_counterexample:
  "sf_read example_libs [''/tmp/tmpq7'' \<mapsto> Dir, ''/tmp/tmpq7/broken.mp3'' \<mapsto> File []]
       ''/tmp/tmpq7/broken.mp3'' = Inl LibsndfileError \<and>
   process_audio_file example_libs corrupt_upload Map.empty =
     (Inr (1, MStr ''Fake voice detected'', default_info), Map.empty)"
  apply (simp add: run_defs example_libs_def corrupt_upload_def)
  apply (rule ext)
  apply simp
  done

text \<open>
  C9, amended. A decode failure is fatal to descriptor extraction only:
  \<^verbatim>\<open>extract_audio_metadata\<close> propagates the decoder's exception, and \<^verbatim>\<open>process_audio_file\<close>
  absorbs it. After a successful staging, and with the \<^verbatim>\<open>print\<close> calls of lines 78 and 90
  returning, the outcome of the request is the classifier's alone: its exception when it
  raises, and otherwise its status and message with the default record.
\<close>

theorem decode_failure_absorbed:
  assumes "mkdtemp L fs = Inr (temp_dir, fs0)"
    and "console_print L
           [PStr ''filepath: '', PStr (path_join temp_dir (uf_name uf))] = None"
    and "uf_read uf = Inr data"
    and "stage_file L fs0 (path_join temp_dir (uf_name uf)) data = (Inr u, fs1)"
    and "sf_read L fs1 (path_join temp_dir (uf_name uf)) = Inl e"
    and "console_print L [PStr ''Metadata extraction failed:'', PExn e] = None"
  shows "extract_audio_metadata L fs1 (path_join temp_dir (uf_name uf)) = Inl e \<and>
         fst (process_audio_file L uf fs) =
           (case fst (infa_deepfake L fs1 (path_join temp_dir (uf_name uf))) of
              Inl e' \<Rightarrow> Inl e'
            | Inr (status, message) \<Rightarrow> Inr (status, message, default_info))"
proof -
  let ?path = "path_join temp_dir (uf_name uf)"
  from assms(5) have ex: "extract_audio_metadata L fs1 ?path = Inl e"
    by (simp add: extract_audio_metadata_def)
  have "fst (process_audio_file L uf fs) = fst (try_body L uf ?path fs0)"
    using assms(1,2) by (simp add: process_audio_file_unfold)
  also have "\<dots> = (case fst (infa_deepfake L fs1 ?path) of
              Inl e' \<Rightarrow> Inl e'
            | Inr (status, message) \<Rightarrow> Inr (status, message, default_info))"
    using assms(3,4) ex assms(6) by (rule try_body_fallback)
  finally show ?thesis using ex by simp
qed

theorem decode_failure_absorbed_witness:
  "mkdtemp example_libs Map.empty = Inr (''/tmp/tmpq7'', [''/tmp/tmpq7'' \<mapsto> Dir]) \<and>
   uf_read corrupt_upload = Inr [] \<and>
   stage_file example_libs [''/tmp/tmpq7'' \<mapsto> Dir]
       (path_join ''/tmp/tmpq7'' (uf_name corrupt_upload)) [] =
     (Inr (), [''/tmp/tmpq7'' \<mapsto> Dir, ''/tmp/tmpq7/broken.mp3'' \<mapsto> File []]) \<and>
   sf_read example_libs [''/tmp/tmpq7'' \<mapsto> Dir, ''/tmp/tmpq7/broken.mp3'' \<mapsto> File []]
       (path_join ''/tmp/tmpq7'' (uf_name corrupt_upload)) = Inl LibsndfileError \<and>
   extract_audio_metadata example_libs
       [''/tmp/tmpq7'' \<mapsto> Dir, ''/tmp/tmpq7/broken.mp3'' \<mapsto> File []]
       (path_join ''/tmp/tmpq7'' (uf_name corrupt_upload)) = Inl LibsndfileError \<and>
   fst (process_audio_file example_libs corrupt_upload Map.empty) =
     Inr (1, MStr ''Fake voice detected'', default_info)"
proof -
  let ?fs1 = "[''/tmp/tmpq7'' \<mapsto> Dir, ''/tmp/tmpq7/broken.mp3'' \<mapsto> File []]"
  let ?path = "path_join ''/tmp/tmpq7'' (uf_name corrupt_upload)"
  have m: "mkdtemp example_libs Map.empty = Inr (''/tmp/tmpq7'', [''/tmp/tmpq7'' \<mapsto> Dir])"
    by (simp add: mkdtemp_def example_libs_def)
  have p1: "console_print example_libs [PStr ''filepath: '', PStr ?path] = None"
    by (simp add: example_libs_def)
  have r: "uf_read corrupt_upload = Inr []"
    by (simp add: corrupt_upload_def)
  have s: "stage_file example_libs [''/tmp/tmpq7'' \<mapsto> Dir] ?path [] = (Inr (), ?fs1)"
    by (simp add: stage_file_def example_libs_def corrupt_upload_def path_join_def)
  have x: "sf_read example_libs ?fs1 ?path = Inl LibsndfileError"
    by (simp add: sf_read_def example_libs_def corrupt_upload_def path_join_def)
  have p2: "console_print example_libs
      [PStr ''Metadata extraction failed:'', PExn LibsndfileError] = None"
    by (simp add: example_libs_def)
  have c: "fst (infa_deepfake example_libs ?fs1 ?path) = Inr (1, MStr ''Fake voice detected'')"
    by (simp add: example_libs_def corrupt_upload_def path_join_def)
  from decode_failure_absorbed [OF m p1 r s x p2] m r s x c
  show ?thesis by simp
qed

subsection \<open>Consistency of the returned record\<close>

text \<open>
  C10. In every record that \<^verbatim>\<open>process_audio_file\<close> returns, extracted or defaulted, the
  \<^verbatim>\<open>samples\<close> field is the length of the \<^verbatim>\<open>waveform\<close> field.
\<close>

theorem samples_match_waveform:
  assumes "fst (process_audio_file L uf fs) = Inr (status, message, info)"
  shows "samples info = length (waveform info)"
proof -
  have ex: "samples i = length (waveform i)" if "extract_audio_metadata L f p = Inr i" for f p i
  proof -
    from that obtain y where "compute_descriptors L y target_sr = Inr i"
      by (rule extract_audio_metadata_Inr)
    then show ?thesis by (auto simp: compute_descriptors_target)
  qed
  have df: "samples default_info = length (waveform default_info)"
    by (simp add: default_info_def)
  from assms show ?thesis
    by (auto simp: process_audio_file_def try_body_def Let_def ex df
             split: sum.splits prod.splits option.splits)
qed

theorem samples_match_waveform_witness:
  "fst (process_audio_file example_libs stereo_upload Map.empty) =
     Inr (1, MStr ''Fake voice detected'',
          \<lparr>samples = 4, sr = 16000, duration = 1/4000, avg_pitch = Num 120,
           avg_energy = Num (7/16), waveform = [1/2, 1/2, 3/8, 3/8]\<rparr>) \<and>
   fst (process_audio_file example_libs corrupt_upload Map.empty) =
     Inr (1, MStr ''Fake voice detected'', default_info) \<and>
   samples default_info = length (waveform default_info)"
proof -
  have a: "fst (process_audio_file example_libs stereo_upload Map.empty) =
     Inr (1, MStr ''Fake voice detected'',
          \<lparr>samples = 4, sr = 16000, duration = 1/4000, avg_pitch = Num 120,
           avg_energy = Num (7/16), waveform = [1/2, 1/2, 3/8, 3/8]\<rparr>)"
    by (simp add: run_defs example_libs_def stereo_upload_def)
  have b: "fst (process_audio_file example_libs corrupt_upload Map.empty) =
     Inr (1, MStr ''Fake voice detected'', default_info)"
    by (simp add: run_defs example_libs_def corrupt_upload_def)
  from a b samples_match_waveform [OF b]
  show ?thesis by simp
qed

end
